theory Spec2Isabelle
  imports Complex_Main
begin

section \<open>Floating-point values\<close>

text \<open>
  The sensor code computes with C++ \<open>float\<close> and \<open>double\<close>. Both are modelled by one
  type of values: not-a-number, the two infinities (\<open>Inf True\<close> is the negative one),
  negative zero, and the finite values as rationals (\<open>Fin 0\<close> is positive zero). A
  \<open>float\<close> or \<open>double\<close> is a value that the rounding function of its format returns;
  widening a \<open>float\<close> to \<open>double\<close> keeps the value. Payloads and signs of not-a-number
  are not distinguished.
\<close>

datatype fpv = NaN | Inf bool | NegZero | Fin rat

definition pow2 :: "int \<Rightarrow> rat" where
  "pow2 k = (if 0 \<le> k then 2 ^ nat k else 1 / 2 ^ nat (- k))"

function bit_length :: "int \<Rightarrow> nat" where
  "bit_length n = (if n \<le> 0 then 0 else Suc (bit_length (n div 2)))"
  by pat_completeness auto
termination
  by (relation "measure nat") auto

declare bit_length.simps [simp del]

text \<open>The exponent of a positive rational: \<open>2 ^ ilog2 m \<le> m < 2 ^ (ilog2 m + 1)\<close>.\<close>

definition ilog2 :: "rat \<Rightarrow> int" where
  "ilog2 m = (if 1 \<le> m then int (bit_length \<lfloor>m\<rfloor>) - 1
              else - int (bit_length (\<lceil>1 / m\<rceil> - 1)))"

definition round_even :: "rat \<Rightarrow> int" where
  "round_even q = (let f = \<lfloor>q\<rfloor>; r = q - of_int f in
     if r < 1 / 2 then f else if 1 / 2 < r then f + 1 else if even f then f else f + 1)"

text \<open>
  Rounding to nearest, ties to even, into the binary format with \<open>p\<close> bits of precision
  and exponents from \<open>emin\<close> to \<open>emax\<close> (subnormal numbers below \<open>2 ^ emin\<close>); a
  rounded magnitude of \<open>2 ^ (emax + 1)\<close> or more overflows to infinity.
\<close>

definition fp_round :: "nat \<Rightarrow> int \<Rightarrow> int \<Rightarrow> rat \<Rightarrow> fpv" where
  "fp_round p emin emax q =
     (if q = 0 then Fin 0
      else let m = \<bar>q\<bar>;
               e = max (ilog2 m) emin;
               ulp = pow2 (e - (int p - 1));
               r = of_int (round_even (m / ulp)) * ulp
           in if r = 0 then (if q < 0 then NegZero else Fin 0)
              else if emax < ilog2 r then Inf (q < 0)
              else Fin (if q < 0 then - r else r))"

text \<open>\<open>float\<close> is IEEE binary32 and \<open>double\<close> is IEEE binary64.\<close>

definition round_f32 :: "rat \<Rightarrow> fpv" where
  "round_f32 = fp_round 24 (- 126) 127"

definition round_f64 :: "rat \<Rightarrow> fpv" where
  "round_f64 = fp_round 53 (- 1022) 1023"

fun sign_bit :: "fpv \<Rightarrow> bool" where
  "sign_bit NaN = False"
| "sign_bit (Inf s) = s"
| "sign_bit NegZero = True"
| "sign_bit (Fin q) = (q < 0)"

fun is_inf :: "fpv \<Rightarrow> bool" where
  "is_inf (Inf s) = True"
| "is_inf x = False"

fun is_zero :: "fpv \<Rightarrow> bool" where
  "is_zero NegZero = True"
| "is_zero (Fin q) = (q = 0)"
| "is_zero x = False"

fun is_finite :: "fpv \<Rightarrow> bool" where
  "is_finite NegZero = True"
| "is_finite (Fin q) = True"
| "is_finite x = False"

fun fp_rat :: "fpv \<Rightarrow> rat" where
  "fp_rat (Fin q) = q"
| "fp_rat x = 0"

definition fp_zero :: "bool \<Rightarrow> fpv" where
  "fp_zero s = (if s then NegZero else Fin 0)"

text \<open>Division, with the result rounded by \<open>rnd\<close>.\<close>

definition fp_div :: "(rat \<Rightarrow> fpv) \<Rightarrow> fpv \<Rightarrow> fpv \<Rightarrow> fpv" where
  "fp_div rnd a b =
     (if a = NaN \<or> b = NaN then NaN
      else let s = (sign_bit a \<noteq> sign_bit b) in
        if is_inf a then (if is_inf b then NaN else Inf s)
        else if is_inf b then fp_zero s
        else if is_zero b then (if is_zero a then NaN else Inf s)
        else if is_zero a then fp_zero s
        else rnd (fp_rat a / fp_rat b))"

definition f32_div :: "fpv \<Rightarrow> fpv \<Rightarrow> fpv" where
  "f32_div = fp_div round_f32"

definition f64_div :: "fpv \<Rightarrow> fpv \<Rightarrow> fpv" where
  "f64_div = fp_div round_f64"

text \<open>The conversion of a \<open>double\<close> to \<open>float\<close>, as an assignment to a \<open>float\<close> makes it.\<close>

fun f32_of_f64 :: "fpv \<Rightarrow> fpv" where
  "f32_of_f64 (Fin q) = round_f32 q"
| "f32_of_f64 x = x"

text \<open>
  Comparisons: not-a-number is unordered and unequal to everything, itself included;
  the two zeros are equal.
\<close>

fun fp_ord :: "fpv \<Rightarrow> (int \<times> rat) option" where
  "fp_ord NaN = None"
| "fp_ord (Inf s) = Some (if s then - 1 else 1, 0)"
| "fp_ord NegZero = Some (0, 0)"
| "fp_ord (Fin q) = Some (0, q)"

definition fp_lt :: "fpv \<Rightarrow> fpv \<Rightarrow> bool" where
  "fp_lt a b = (case (fp_ord a, fp_ord b) of
                  (Some (i, x), Some (j, y)) \<Rightarrow> i < j \<or> (i = j \<and> x < y)
                | _ \<Rightarrow> False)"

definition fp_gt :: "fpv \<Rightarrow> fpv \<Rightarrow> bool" where
  "fp_gt a b = fp_lt b a"

definition fp_eq :: "fpv \<Rightarrow> fpv \<Rightarrow> bool" where
  "fp_eq a b = (case (fp_ord a, fp_ord b) of
                  (Some x, Some y) \<Rightarrow> x = y
                | _ \<Rightarrow> False)"

definition fp_ne :: "fpv \<Rightarrow> fpv \<Rightarrow> bool" where
  "fp_ne a b = (\<not> fp_eq a b)"

section \<open>The conversion of text: \<open>std::stof\<close>\<close>

text \<open>
  \<open>std::stof\<close> calls \<open>strtof\<close>: it skips white space, reads an optional sign and then the
  longest prefix that is a decimal number, a hexadecimal number, \<open>inf\<close> or \<open>nan\<close>
  (in any case), and ignores the rest of the text. It throws \<open>std::invalid_argument\<close>
  when no conversion can be made, and \<open>std::out_of_range\<close> when \<open>strtof\<close> reports a range
  error: the number overflows \<open>float\<close>, or it underflows.
\<close>

datatype stof_result = Converted fpv | invalid_argument | out_of_range

definition isspace :: "char \<Rightarrow> bool" where
  "isspace c = (c \<in> set [CHR '' '', CHR 0x09, CHR 0x0A, CHR 0x0B, CHR 0x0C, CHR 0x0D])"

definition isdigit :: "char \<Rightarrow> bool" where
  "isdigit c = (let n = (of_char c :: nat) in 48 \<le> n \<and> n \<le> 57)"

definition isxdigit :: "char \<Rightarrow> bool" where
  "isxdigit c = (let n = (of_char c :: nat) in
     (48 \<le> n \<and> n \<le> 57) \<or> (97 \<le> n \<and> n \<le> 102) \<or> (65 \<le> n \<and> n \<le> 70))"

definition xdigit_val :: "char \<Rightarrow> int" where
  "xdigit_val c = (let n = (of_char c :: int) in
     if n \<le> 57 then n - 48 else if 97 \<le> n then n - 87 else n - 55)"

definition tolower :: "char \<Rightarrow> char" where
  "tolower c = (let n = (of_char c :: nat) in
     if 65 \<le> n \<and> n \<le> 90 then char_of (n + 32) else c)"

definition digits_val :: "int \<Rightarrow> string \<Rightarrow> int" where
  "digits_val base ds = foldl (\<lambda>a c. a * base + xdigit_val c) 0 ds"

definition split_sign :: "string \<Rightarrow> bool \<times> string" where
  "split_sign s = (case s of
       [] \<Rightarrow> (False, s)
     | c # r \<Rightarrow> if c = CHR ''-'' then (True, r) else if c = CHR ''+'' then (False, r)
                else (False, s))"

text \<open>
  The exponent part, when the text goes on with one of the letters \<open>marks\<close>, an optional
  sign and at least one digit; otherwise there is no exponent part.
\<close>

definition parse_exponent :: "char list \<Rightarrow> string \<Rightarrow> int" where
  "parse_exponent marks s = (case s of
       [] \<Rightarrow> 0
     | c # r \<Rightarrow>
         if c \<in> set marks then
           (let (neg, r') = split_sign r; ds = takeWhile isdigit r' in
            if ds = [] then 0 else if neg then - digits_val 10 ds else digits_val 10 ds)
         else 0)"

text \<open>The digits before and after the radix point, and the text after them.\<close>

definition split_mantissa :: "(char \<Rightarrow> bool) \<Rightarrow> string \<Rightarrow> string \<times> string \<times> string" where
  "split_mantissa dig s =
     (let ip = takeWhile dig s; r1 = dropWhile dig s in
      case r1 of
        [] \<Rightarrow> (ip, [], r1)
      | c # r \<Rightarrow> if c = CHR ''.'' then (ip, takeWhile dig r, dropWhile dig r)
                 else (ip, [], r1))"

text \<open>
  The result of \<open>strtof\<close> (glibc, \<open>round_and_return\<close>) for a text that denotes the
  magnitude \<open>q\<close>. The magnitude is cut to a significand \<open>m\<close> of 24 bits, a round bit
  \<open>b\<close> and sticky bits \<open>s\<close>, and rounded to nearest, ties to even; a result of
  \<open>2 ^ 128\<close> or more is a range error. A magnitude below \<open>2 ^ - 126\<close> is rounded a
  second time, at the subnormal exponent, from the significand shifted right; there
  glibc leaves the first round bit out of the sticky bits for hexadecimal text, and for
  decimal text when the shift is by one bit. It reports a range error when what is
  shifted out is not zero and the result is tiny, which it is unless rounding to 24
  bits reaches \<open>2 ^ - 126\<close>; and for every magnitude below \<open>2 ^ - 150\<close>.
\<close>

definition fp_signed :: "bool \<Rightarrow> rat \<Rightarrow> fpv" where
  "fp_signed neg v = (if v = 0 then fp_zero neg else Fin (if neg then - v else v))"

definition strtof_result :: "bool \<Rightarrow> bool \<Rightarrow> rat \<Rightarrow> stof_result" where
  "strtof_result hexa neg q =
     (if q = 0 then Converted (fp_zero neg)
      else let e = ilog2 q in
        if 127 < e \<or> e < - 150 then out_of_range
        else
          let t = q / pow2 (e - 23);
              m = \<lfloor>t\<rfloor>;
              frac = t - of_int m;
              b = (1 / 2 \<le> frac);
              s = (frac \<noteq> 0 \<and> frac \<noteq> 1 / 2)
          in if e < - 126 then
               (let shift = nat (- 126 - e);
                    tiny = (\<not> (shift = 1 \<and> b \<and> (odd m \<or> s) \<and> m + 1 = 2 ^ 24));
                    half = odd (m div 2 ^ (shift - 1));
                    sticky = (s \<or> m mod 2 ^ (shift - 1) \<noteq> 0 \<or> (b \<and> \<not> (hexa \<or> shift = 1)));
                    m2 = m div 2 ^ shift;
                    m3 = (if half \<and> (odd m2 \<or> sticky) then m2 + 1 else m2)
                in if tiny \<and> (half \<or> sticky) then out_of_range
                   else Converted (fp_signed neg (of_int m3 * pow2 (- 149))))
             else
               (let m1 = (if b \<and> (odd m \<or> s) then m + 1 else m)
                in if m1 = 2 ^ 24 \<and> e = 127 then out_of_range
                   else Converted (fp_signed neg (of_int m1 * pow2 (e - 23)))))"

definition stof :: "string \<Rightarrow> stof_result" where
  "stof str =
     (let (neg, s) = split_sign (dropWhile isspace str);
          word = map tolower (take 3 s)
      in if word = ''inf'' then Converted (Inf neg)
         else if word = ''nan'' then Converted NaN
         else
           let (xi, xf, xr) = split_mantissa isxdigit (drop 2 s) in
           if map tolower (take 2 s) = ''0x'' \<and> xi @ xf \<noteq> [] then
             strtof_result True neg
               (of_int (digits_val 16 (xi @ xf))
                  * pow2 (parse_exponent ''pP'' xr - 4 * int (length xf)))
           else
             let (di, df, dr) = split_mantissa isdigit s in
             if di @ df = [] then invalid_argument
             else
               let e = parse_exponent ''eE'' dr - int (length df) in
               strtof_result False neg
                 (of_int (digits_val 10 (di @ df))
                    * (if 0 \<le> e then 10 ^ nat e else 1 / 10 ^ nat (- e))))"

section \<open>The data model\<close>

text \<open>
  Modelled from the spec: \<open>Thresholds.hpp\<close>, which declares \<open>thresholds::Level\<close>,
  \<open>thresholds::Direction\<close> and \<open>thresholds::Threshold\<close>, is not among the sources. The
  spec gives a threshold a level (Warning or Critical), a direction (High or Low) and a
  trip value; the sensor code reads them as \<open>level\<close>, \<open>direction\<close> and \<open>value\<close>
  (\<open>thr_value\<close> here).
\<close>

datatype Level = WARNING | CRITICAL

datatype Direction = HIGH | LOW

record Threshold =
  level :: Level
  direction :: Direction
  thr_value :: fpv

text \<open>
  Modelled from the spec: \<open>ADCSensor.hpp\<close>, the declaration of the class, is not among
  the sources. The fields are the members that the member functions of the class use.
  \<open>sensor_value\<close> is the member \<open>value\<close>, a \<open>double\<close>; \<open>err_count\<close> is the spec's
  consecutive-error count, a running tally, taken as a natural number; \<open>input_dev\<close> is
  the descriptor that the stream holds, \<open>None\<close> when it is closed; the two threshold
  interfaces are shared pointers, of which the code only tests whether they are set.
\<close>

record ADCSensor =
  path :: string
  name :: string
  thresholds :: "Threshold list"
  scale_factor :: fpv
  threshold_interface_warning :: bool
  threshold_interface_critical :: bool
  input_dev :: "int option"
  read_buf :: string
  sensor_value :: fpv
  err_count :: nat
  max_value :: fpv
  min_value :: fpv

definition SENSOR_POLL_MS :: nat where
  "SENSOR_POLL_MS = 500"

definition WARN_AFTER_ERROR_COUNT :: nat where
  "WARN_AFTER_ERROR_COUNT = 10"

definition SENSOR_SCALE_FACTOR :: nat where
  "SENSOR_SCALE_FACTOR = 1000"

text \<open>The error code that a completion handler receives; \<open>success\<close> is the code 0.\<close>

datatype error_code = success | bad_file_descriptor | operation_aborted | other_error nat

text \<open>What the sensor does to the bus, to the device, to the timer and to the log.\<close>

datatype event =
    SetValue fpv
  | SetAlarm string bool
  | LogUnknownThreshold
  | LogUninitialized
  | LogReadFailure error_code
  | CloseDev
  | OpenDev string
  | AssignDev int
  | ArmTimer nat
  | AsyncReadUntil
  | CancelTimer
  | RemoveInterface string

section \<open>The operations\<close>

text \<open>
  The constructor. \<open>thresholds::HasWarningInterface\<close> and
  \<open>thresholds::HasCriticalInterface\<close> are not among the sources and are parameters;
  \<open>fd\<close> is what \<open>open\<close> returns. The registration of the properties on the bus
  (\<open>set_initial_properties\<close>) is left out; the constructor ends with \<open>setup_read\<close>.
\<close>

definition ADCSensor_new ::
  "(Threshold list \<Rightarrow> bool) \<Rightarrow> (Threshold list \<Rightarrow> bool) \<Rightarrow> string \<Rightarrow> int \<Rightarrow> string
     \<Rightarrow> Threshold list \<Rightarrow> fpv \<Rightarrow> ADCSensor" where
  "ADCSensor_new HasWarningInterface HasCriticalInterface pth fd sensor_name ths scale =
     \<lparr> path = pth,
       name = map (\<lambda>c. if c = CHR '' '' then CHR ''_'' else c) sensor_name,
       thresholds = ths,
       scale_factor = scale,
       threshold_interface_warning = HasWarningInterface ths,
       threshold_interface_critical = HasCriticalInterface ths,
       input_dev = Some fd,
       read_buf = [],
       sensor_value = NaN,
       err_count = 0,
       max_value = Fin 20,
       min_value = Fin 0 \<rparr>"

definition setup_read :: "event list" where
  "setup_read = [AsyncReadUntil]"

definition assert_thresholds :: "ADCSensor \<Rightarrow> Level \<Rightarrow> Direction \<Rightarrow> bool \<Rightarrow> event list" where
  "assert_thresholds s lvl dir assert =
     (case (if lvl = WARNING \<and> dir = HIGH then
              Some (''WarningAlarmHigh'', threshold_interface_warning s)
            else if lvl = WARNING \<and> dir = LOW then
              Some (''WarningAlarmLow'', threshold_interface_warning s)
            else if lvl = CRITICAL \<and> dir = HIGH then
              Some (''CriticalAlarmHigh'', threshold_interface_critical s)
            else if lvl = CRITICAL \<and> dir = LOW then
              Some (''CriticalAlarmLow'', threshold_interface_critical s)
            else None) of
        None \<Rightarrow> [LogUnknownThreshold]
      | Some (property, interface) \<Rightarrow>
          if \<not> interface then [LogUninitialized] else [SetAlarm property assert])"

fun check_each :: "ADCSensor \<Rightarrow> Threshold list \<Rightarrow> event list" where
  "check_each s [] = []"
| "check_each s (threshold # rest) =
     (if direction threshold = HIGH then
        (if fp_gt (sensor_value s) (thr_value threshold) then
           assert_thresholds s (level threshold) (direction threshold) True
         else
           assert_thresholds s (level threshold) (direction threshold) False)
      else
        (if fp_lt (sensor_value s) (thr_value threshold) then
           assert_thresholds s (level threshold) (direction threshold) True
         else
           assert_thresholds s (level threshold) (direction threshold) False))
     @ check_each s rest"

definition check_thresholds :: "ADCSensor \<Rightarrow> event list" where
  "check_thresholds s = (if thresholds s = [] then [] else check_each s (thresholds s))"

definition update_value :: "fpv \<Rightarrow> ADCSensor \<Rightarrow> ADCSensor \<times> event list" where
  "update_value new_value s =
     (let s' = s\<lparr>sensor_value := new_value\<rparr>
      in (s', SetValue new_value # check_thresholds s'))"

text \<open>\<open>std::getline\<close>: the text up to the first newline, which is removed, and the rest.\<close>

definition getline :: "string \<Rightarrow> string \<times> string" where
  "getline buf = (takeWhile (\<lambda>c. c \<noteq> CHR 0x0A) buf, drop 1 (dropWhile (\<lambda>c. c \<noteq> CHR 0x0A) buf))"

text \<open>
  How a call of \<open>handle_response\<close> ends: \<open>Destroyed\<close> and \<open>Invalid\<close> are its two early
  returns, \<open>Waiting\<close> its end with the timer armed, and \<open>Uncaught\<close> the exception
  \<open>std::out_of_range\<close> of \<open>std::stof\<close>, which no handler of the function catches.
\<close>

datatype completion = Destroyed | Invalid | Waiting | Uncaught

text \<open>
  \<open>handle_response\<close>, the completion handler of the read. \<open>err\<close> is the error code of
  the read and \<open>fd\<close> is what \<open>open\<close> returns when the device is opened again.
\<close>

definition handle_response ::
  "error_code \<Rightarrow> int \<Rightarrow> ADCSensor \<Rightarrow> completion \<times> ADCSensor \<times> event list" where
  "handle_response err fd s =
     (if err = bad_file_descriptor then (Destroyed, s, [])
      else
        case (if err = success then
                (let (response, rest) = getline (read_buf s);
                     s1 = s\<lparr>read_buf := rest\<rparr>
                 in case stof response of
                      Converted parsed \<Rightarrow>
                        (let nvalue = f32_of_f64
                               (f64_div (f32_div parsed (round_f32 (of_nat SENSOR_SCALE_FACTOR)))
                                  (scale_factor s1));
                             (s2, ev) = (if fp_ne nvalue (sensor_value s1)
                                         then update_value nvalue s1 else (s1, []))
                         in Inr (s2\<lparr>err_count := 0\<rparr>, ev))
                    | invalid_argument \<Rightarrow> Inr (s1\<lparr>err_count := err_count s1 + 1\<rparr>, [])
                    | out_of_range \<Rightarrow> Inl s1)
              else Inr (s\<lparr>err_count := err_count s + 1\<rparr>, [LogReadFailure err])) of
          Inl s1 \<Rightarrow> (Uncaught, s1, [])
        | Inr (s2, ev1) \<Rightarrow>
            (let (s3, ev2) = (if err_count s2 = WARN_AFTER_ERROR_COUNT
                              then update_value (Fin 0) s2 else (s2, []));
                 s4 = s3\<lparr>input_dev := None\<rparr>;
                 ev3 = ev1 @ ev2 @ [CloseDev, OpenDev (path s4)]
             in if fd \<le> 0 then (Invalid, s4, ev3)
                else (Waiting, s4\<lparr>input_dev := Some fd\<rparr>,
                      ev3 @ [AssignDev fd, ArmTimer SENSOR_POLL_MS])))"

text \<open>The completion handler of the timer: what it does on the error code \<open>ec\<close>.\<close>

definition wait_handler :: "error_code \<Rightarrow> event list" where
  "wait_handler ec = (if ec = operation_aborted then [] else setup_read)"

section \<open>The poll loop\<close>

text \<open>
  One cycle of the loop, as the environment decides it: the error code of the read and
  the bytes that the read has put into the buffer, what \<open>open\<close> returns, and the error
  code of the timer.
\<close>

record cycle =
  read_ec :: error_code
  read_data :: string
  open_fd :: int
  wait_ec :: error_code

definition deliver :: "cycle \<Rightarrow> ADCSensor \<Rightarrow> ADCSensor" where
  "deliver c s = s\<lparr>read_buf := read_buf s @ read_data c\<rparr>"

definition step :: "cycle \<Rightarrow> ADCSensor \<Rightarrow> completion \<times> ADCSensor \<times> event list" where
  "step c s = handle_response (read_ec c) (open_fd c) (deliver c s)"

text \<open>
  The loop over the cycles: the next read starts only when the handler has armed the
  timer and the handler of the timer has called \<open>setup_read\<close>. The result lists, for
  every cycle that ran, how the handler ended, the state it left and what it did.
\<close>

fun poll :: "cycle list \<Rightarrow> ADCSensor \<Rightarrow> (completion \<times> ADCSensor \<times> event list) list" where
  "poll [] s = []"
| "poll (c # cs) s =
     (let r = step c s
      in r # (if fst r = Waiting \<and> wait_handler (wait_ec c) \<noteq> []
              then poll cs (fst (snd r)) else []))"

text \<open>The values that a list of events sets on the bus, in order.\<close>

fun published :: "event list \<Rightarrow> fpv list" where
  "published [] = []"
| "published (SetValue v # es) = v # published es"
| "published (e # es) = published es"

section \<open>Teardown\<close>

text \<open>
  The destructor: it closes the device, cancels the timer and removes the three
  interfaces from the object server.
\<close>

definition ADCSensor_destroy :: "ADCSensor \<Rightarrow> ADCSensor \<times> event list" where
  "ADCSensor_destroy s =
     (s\<lparr>input_dev := None\<rparr>,
      [CloseDev, CancelTimer,
       RemoveInterface ''xyz.openbmc_project.Sensor.Threshold.Warning'',
       RemoveInterface ''xyz.openbmc_project.Sensor.Threshold.Critical'',
       RemoveInterface ''xyz.openbmc_project.Sensor.Value''])"

text \<open>
  What is outstanding when the destructor runs: the read, the wait of the timer, or a
  wait whose timer has expired already, so that its handler is queued. Boost.Asio
  documents the error codes that the handlers then get: \<open>close\<close> cancels the
  asynchronous operations of a descriptor, which complete with \<open>operation_aborted\<close>;
  \<open>cancel\<close> completes the waits of a timer with \<open>operation_aborted\<close>, but a handler that
  is queued already can no longer be cancelled and gets the code of success.
\<close>

datatype outstanding = ReadOutstanding | WaitOutstanding | WaitExpired

definition cancelled_code :: "outstanding \<Rightarrow> error_code" where
  "cancelled_code p =
     (case p of ReadOutstanding \<Rightarrow> operation_aborted
              | WaitOutstanding \<Rightarrow> operation_aborted
              | WaitExpired \<Rightarrow> success)"

text \<open>
  The handler of the outstanding operation, run after the destructor: the state it
  leaves and what it does. \<open>fd\<close> is what \<open>open\<close> returns if the handler opens the device.
\<close>

definition complete_after_destroy :: "outstanding \<Rightarrow> int \<Rightarrow> ADCSensor \<Rightarrow> ADCSensor \<times> event list" where
  "complete_after_destroy p fd s =
     (let s' = fst (ADCSensor_destroy s)
      in case p of
           ReadOutstanding \<Rightarrow> snd (handle_response (cancelled_code p) fd s')
         | _ \<Rightarrow> (s', wait_handler (cancelled_code p)))"

section \<open>Notions for the properties\<close>

text \<open>
  The value that \<open>handle_response\<close> computes from the converted sample \<open>x\<close> and the
  scale factor \<open>sf\<close>: \<open>x\<close> divided by the constant in \<open>float\<close>, divided by the scale
  factor in \<open>double\<close>, assigned to a \<open>float\<close>.
\<close>

definition scaled :: "fpv \<Rightarrow> fpv \<Rightarrow> fpv" where
  "scaled x sf = f32_of_f64 (f64_div (f32_div x (round_f32 (of_nat SENSOR_SCALE_FACTOR))) sf)"

text \<open>
  A cycle fails when the read ends with an error other than the closed descriptor, or
  when the line that was read is no number: these are the cycles that count an error.
\<close>

definition cycle_failed :: "cycle \<Rightarrow> ADCSensor \<Rightarrow> bool" where
  "cycle_failed c s =
     (if read_ec c = success
      then stof (fst (getline (read_buf (deliver c s)))) = invalid_argument
      else read_ec c \<noteq> bad_file_descriptor)"

text \<open>The loop goes on after a cycle: the device opens again and the timer expires.\<close>

definition keeps_polling :: "cycle \<Rightarrow> bool" where
  "keeps_polling c = (0 < open_fd c \<and> wait_ec c \<noteq> operation_aborted)"

fun state_after :: "cycle list \<Rightarrow> ADCSensor \<Rightarrow> ADCSensor" where
  "state_after [] s = s"
| "state_after (c # cs) s = state_after cs (fst (snd (step c s)))"

text \<open>A run of consecutive failed cycles, each followed by the next.\<close>

fun failing_streak :: "cycle list \<Rightarrow> ADCSensor \<Rightarrow> bool" where
  "failing_streak [] s = True"
| "failing_streak (c # cs) s =
     (cycle_failed c s \<and> keeps_polling c \<and> failing_streak cs (fst (snd (step c s))))"

text \<open>A sensor and cycles for the examples.\<close>

definition has_level :: "Level \<Rightarrow> Threshold list \<Rightarrow> bool" where
  "has_level lvl ths = list_ex (\<lambda>t. level t = lvl) ths"

definition example_sensor :: ADCSensor where
  "example_sensor =
     ADCSensor_new (has_level WARNING) (has_level CRITICAL) ''/sys/class/hwmon/hwmon0/in1_input'' 3
       ''P12V AUX'' [\<lparr>level = CRITICAL, direction = HIGH, thr_value = Fin (9 / 2)\<rparr>] (Fin 1)"

definition read_error_cycle :: cycle where
  "read_error_cycle = \<lparr>read_ec = other_error 5, read_data = [], open_fd = 3, wait_ec = success\<rparr>"

definition sample_cycle :: "string \<Rightarrow> cycle" where
  "sample_cycle line =
     \<lparr>read_ec = success, read_data = line @ [CHR 0x0A], open_fd = 3, wait_ec = success\<rparr>"

text \<open>
  The property that \<open>assert_thresholds\<close> sets for a level and a direction, and whether
  the interface of a level is set.
\<close>

definition alarm_property :: "Level \<Rightarrow> Direction \<Rightarrow> string" where
  "alarm_property lvl dir =
     (case lvl of
        WARNING \<Rightarrow> (case dir of HIGH \<Rightarrow> ''WarningAlarmHigh'' | LOW \<Rightarrow> ''WarningAlarmLow'')
      | CRITICAL \<Rightarrow> (case dir of HIGH \<Rightarrow> ''CriticalAlarmHigh'' | LOW \<Rightarrow> ''CriticalAlarmLow''))"

definition interface_set :: "ADCSensor \<Rightarrow> Level \<Rightarrow> bool" where
  "interface_set s lvl =
     (case lvl of WARNING \<Rightarrow> threshold_interface_warning s
                | CRITICAL \<Rightarrow> threshold_interface_critical s)"

text \<open>
  The events of \<open>update_value\<close> and \<open>check_thresholds\<close>; what a publication of \<open>v\<close>
  consists of; the value that a list of events published last, \<open>v\<close> when it published
  none; the events and the last state of a run of the loop.
\<close>

definition is_bus :: "event \<Rightarrow> bool" where
  "is_bus e = (case e of SetValue v \<Rightarrow> True | SetAlarm p b \<Rightarrow> True
                | LogUnknownThreshold \<Rightarrow> True | LogUninitialized \<Rightarrow> True | _ \<Rightarrow> False)"

definition publish_block :: "ADCSensor \<Rightarrow> fpv \<Rightarrow> event list" where
  "publish_block s v = SetValue v # check_thresholds (s\<lparr>sensor_value := v\<rparr>)"

fun last_published :: "fpv \<Rightarrow> event list \<Rightarrow> fpv" where
  "last_published v [] = v"
| "last_published v (SetValue w # es) = last_published w es"
| "last_published v (e # es) = last_published v es"

definition run_events :: "cycle list \<Rightarrow> ADCSensor \<Rightarrow> event list" where
  "run_events cs s = concat (map (\<lambda>r. snd (snd r)) (poll cs s))"

definition run_state :: "cycle list \<Rightarrow> ADCSensor \<Rightarrow> ADCSensor" where
  "run_state cs s = (if poll cs s = [] then s else fst (snd (last (poll cs s))))"

section \<open>The handler, case by case\<close>

lemma published_append [simp]: "published (xs @ ys) = published xs @ published ys"
  by (induction xs rule: published.induct) simp_all

lemma published_assert [simp]: "published (assert_thresholds s l d b) = []"
  by (cases l; cases d) (simp_all add: assert_thresholds_def)

lemma published_check_each [simp]: "published (check_each s ts) = []"
  by (induction ts) simp_all

lemma published_check [simp]: "published (check_thresholds s) = []"
  by (simp add: check_thresholds_def)

lemma check_each_cong:
  "sensor_value s = sensor_value t \<Longrightarrow>
   threshold_interface_warning s = threshold_interface_warning t \<Longrightarrow>
   threshold_interface_critical s = threshold_interface_critical t \<Longrightarrow>
   check_each s ts = check_each t ts"
  by (induction ts) (simp_all add: assert_thresholds_def)

lemma check_thresholds_cong:
  "sensor_value s = sensor_value t \<Longrightarrow> thresholds s = thresholds t \<Longrightarrow>
   threshold_interface_warning s = threshold_interface_warning t \<Longrightarrow>
   threshold_interface_critical s = threshold_interface_critical t \<Longrightarrow>
   check_thresholds s = check_thresholds t"
  using check_each_cong [of s t] by (simp add: check_thresholds_def)

lemma handle_response_destroyed:
  "handle_response bad_file_descriptor fd s = (Destroyed, s, [])"
  by (simp add: handle_response_def)

lemma handle_response_converted:
  assumes "stof (fst (getline (read_buf s))) = Converted x"
  shows "handle_response success fd s =
     (let nvalue = scaled x (scale_factor s);
          s1 = s\<lparr>read_buf := snd (getline (read_buf s))\<rparr>;
          s2 = (if fp_ne nvalue (sensor_value s) then s1\<lparr>sensor_value := nvalue\<rparr> else s1);
          ev = (if fp_ne nvalue (sensor_value s)
                then SetValue nvalue # check_thresholds (s\<lparr>sensor_value := nvalue\<rparr>) else [])
      in if fd \<le> 0
         then (Invalid, s2\<lparr>err_count := 0, input_dev := None\<rparr>, ev @ [CloseDev, OpenDev (path s)])
         else (Waiting, s2\<lparr>err_count := 0, input_dev := Some fd\<rparr>,
               ev @ [CloseDev, OpenDev (path s), AssignDev fd, ArmTimer SENSOR_POLL_MS]))"
proof -
  have c: "check_thresholds (s\<lparr>read_buf := r, sensor_value := v\<rparr>) = check_thresholds (s\<lparr>sensor_value := v\<rparr>)" for r v
    by (rule check_thresholds_cong) simp_all
  show ?thesis
    using assms
    by (simp add: handle_response_def scaled_def update_value_def Let_def c
        WARN_AFTER_ERROR_COUNT_def case_prod_beta)
qed

lemma handle_response_invalid_argument:
  assumes "stof (fst (getline (read_buf s))) = invalid_argument"
  shows "handle_response success fd s =
     (let s2 = s\<lparr>read_buf := snd (getline (read_buf s)), err_count := err_count s + 1\<rparr>;
          warn = (err_count s + 1 = WARN_AFTER_ERROR_COUNT);
          s3 = (if warn then s2\<lparr>sensor_value := Fin 0\<rparr> else s2);
          ev = (if warn then SetValue (Fin 0) # check_thresholds (s\<lparr>sensor_value := Fin 0\<rparr>) else [])
      in if fd \<le> 0
         then (Invalid, s3\<lparr>input_dev := None\<rparr>, ev @ [CloseDev, OpenDev (path s)])
         else (Waiting, s3\<lparr>input_dev := Some fd\<rparr>,
               ev @ [CloseDev, OpenDev (path s), AssignDev fd, ArmTimer SENSOR_POLL_MS]))"
proof -
  have c: "check_thresholds (s\<lparr>read_buf := r, err_count := n, sensor_value := v\<rparr>) = check_thresholds (s\<lparr>sensor_value := v\<rparr>)" for r v n
    by (rule check_thresholds_cong) simp_all
  show ?thesis
    using assms
    by (simp add: handle_response_def update_value_def Let_def c case_prod_beta)
qed

lemma handle_response_read_error:
  assumes "err \<noteq> success" "err \<noteq> bad_file_descriptor"
  shows "handle_response err fd s =
     (let s2 = s\<lparr>err_count := err_count s + 1\<rparr>;
          warn = (err_count s + 1 = WARN_AFTER_ERROR_COUNT);
          s3 = (if warn then s2\<lparr>sensor_value := Fin 0\<rparr> else s2);
          ev = [LogReadFailure err] @
               (if warn then SetValue (Fin 0) # check_thresholds (s\<lparr>sensor_value := Fin 0\<rparr>) else [])
      in if fd \<le> 0
         then (Invalid, s3\<lparr>input_dev := None\<rparr>, ev @ [CloseDev, OpenDev (path s)])
         else (Waiting, s3\<lparr>input_dev := Some fd\<rparr>,
               ev @ [CloseDev, OpenDev (path s), AssignDev fd, ArmTimer SENSOR_POLL_MS]))"
proof -
  have c: "check_thresholds (s\<lparr>err_count := n, sensor_value := v\<rparr>) = check_thresholds (s\<lparr>sensor_value := v\<rparr>)" for v n
    by (rule check_thresholds_cong) simp_all
  show ?thesis
    using assms
    by (simp add: handle_response_def update_value_def Let_def c case_prod_beta)
qed

lemma handle_response_out_of_range:
  assumes "stof (fst (getline (read_buf s))) = out_of_range"
  shows "handle_response success fd s = (Uncaught, s\<lparr>read_buf := snd (getline (read_buf s))\<rparr>, [])"
  using assms by (simp add: handle_response_def Let_def case_prod_beta)

subsection \<open>Runs of failed cycles\<close>

lemma step_failed:
  assumes "cycle_failed c s"
  shows "fst (step c s) = (if open_fd c \<le> 0 then Invalid else Waiting)"
    and "err_count (fst (snd (step c s))) = err_count s + 1"
    and "published (snd (snd (step c s))) =
           (if err_count s + 1 = WARN_AFTER_ERROR_COUNT then [Fin 0] else [])"
    and "sensor_value (fst (snd (step c s))) =
           (if err_count s + 1 = WARN_AFTER_ERROR_COUNT then Fin 0 else sensor_value s)"
proof -
  show "fst (step c s) = (if open_fd c \<le> 0 then Invalid else Waiting)"
    using assms
    by (cases "read_ec c = success")
      (simp_all add: cycle_failed_def step_def handle_response_invalid_argument
        handle_response_read_error Let_def)
  show "err_count (fst (snd (step c s))) = err_count s + 1"
    using assms
    by (cases "read_ec c = success")
      (simp_all add: cycle_failed_def step_def handle_response_invalid_argument
        handle_response_read_error Let_def deliver_def)
  show "published (snd (snd (step c s))) =
           (if err_count s + 1 = WARN_AFTER_ERROR_COUNT then [Fin 0] else [])"
    using assms
    by (cases "read_ec c = success")
      (simp_all add: cycle_failed_def step_def handle_response_invalid_argument
        handle_response_read_error Let_def deliver_def)
  show "sensor_value (fst (snd (step c s))) =
           (if err_count s + 1 = WARN_AFTER_ERROR_COUNT then Fin 0 else sensor_value s)"
    using assms
    by (cases "read_ec c = success")
      (simp_all add: cycle_failed_def step_def handle_response_invalid_argument
        handle_response_read_error Let_def deliver_def)
qed

lemma keeps_polling_handler: "keeps_polling c \<Longrightarrow> wait_handler (wait_ec c) \<noteq> []"
  by (simp add: keeps_polling_def wait_handler_def setup_read_def)

lemma poll_failing_streak:
  "failing_streak cs s \<Longrightarrow> k < length cs \<Longrightarrow>
   length (poll cs s) = length cs \<and>
   published (snd (snd (poll cs s ! k))) =
     (if err_count s + k + 1 = WARN_AFTER_ERROR_COUNT then [Fin 0] else []) \<and>
   err_count (fst (snd (poll cs s ! k))) = err_count s + k + 1"
proof (induction cs arbitrary: s k)
  case Nil
  then show ?case by simp
next
  case (Cons c cs)
  from Cons.prems have f: "cycle_failed c s" and kp: "keeps_polling c"
    and rest: "failing_streak cs (fst (snd (step c s)))"
    by simp_all
  from kp have w: "fst (step c s) = Waiting"
    using step_failed(1) [OF f] by (simp add: keeps_polling_def)
  have p: "poll (c # cs) s = step c s # poll cs (fst (snd (step c s)))"
    using w keeps_polling_handler [OF kp] by (simp add: Let_def)
  have len: "length (poll cs (fst (snd (step c s)))) = length cs"
  proof (cases cs)
    case Nil
    then show ?thesis by simp
  next
    case (Cons d ds)
    then have "0 < length cs" by simp
    from Cons.IH [OF rest this] show ?thesis by simp
  qed
  show ?case
  proof (cases k)
    case 0
    then show ?thesis
      using p len step_failed(2,3) [OF f] by simp
  next
    case (Suc j)
    with Cons.prems have "j < length cs" by simp
    from Cons.IH [OF rest this] show ?thesis
      using p len Suc step_failed(2) [OF f] by simp
  qed
qed

lemma failing_streak_read_errors: "failing_streak (replicate n read_error_cycle) s"
  by (induction n arbitrary: s)
    (simp_all add: cycle_failed_def keeps_polling_def read_error_cycle_def)

lemma state_after_append: "state_after (cs @ ds) s = state_after ds (state_after cs s)"
  by (induction cs arbitrary: s) simp_all

lemma failing_streak_err_count:
  "failing_streak cs s \<Longrightarrow> err_count (state_after cs s) = err_count s + length cs"
proof (induction cs arbitrary: s)
  case Nil
  then show ?case by simp
next
  case (Cons c cs)
  then have "err_count (state_after cs (fst (snd (step c s)))) =
      err_count (fst (snd (step c s))) + length cs"
    by simp
  with Cons.prems show ?case
    by (simp add: step_failed(2))
qed

subsection \<open>Evaluations and comparisons\<close>

lemma stof_5000: "stof ''5000'' = Converted (Fin 5000)"
  by code_simp

lemma getline_line [simp]: "CHR 0x0A \<notin> set l \<Longrightarrow> getline (l @ CHR 0x0A # r) = (l, r)"
  by (induction l) (auto simp add: getline_def)

lemma assert_thresholds_set:
  "interface_set s lvl \<Longrightarrow>
   assert_thresholds s lvl dir b = [SetAlarm (alarm_property lvl dir) b]"
  by (cases lvl; cases dir)
    (simp_all add: assert_thresholds_def interface_set_def alarm_property_def)

lemma check_each_set:
  "\<forall>t\<in>set ts. interface_set s (level t) \<Longrightarrow>
   check_each s ts =
     map (\<lambda>t. SetAlarm (alarm_property (level t) (direction t))
                 (if direction t = HIGH then fp_gt (sensor_value s) (thr_value t)
                  else fp_lt (sensor_value s) (thr_value t))) ts"
  by (induction ts) (simp_all add: assert_thresholds_set)

lemma fp_lt_irrefl: "\<not> fp_lt v v"
  by (cases v) (simp_all add: fp_lt_def)

lemma fp_lt_Fin: "fp_lt (Fin a) (Fin b) = (a < b)"
  by (simp add: fp_lt_def)

lemma fp_ne_Fin: "fp_ne (Fin a) (Fin b) = (a \<noteq> b)"
  by (simp add: fp_ne_def fp_eq_def)

lemma fp_ne_NaN: "fp_ne NaN v" "fp_ne v NaN"
  by (simp_all add: fp_ne_def fp_eq_def split: option.splits)

lemma round_f32_1000: "round_f32 1000 = Fin 1000"
  by code_simp

lemma scale_constant: "round_f32 (of_nat SENSOR_SCALE_FACTOR) = Fin 1000"
  by (simp add: SENSOR_SCALE_FACTOR_def round_f32_1000)

lemma scaled_eq: "scaled x sf = f32_of_f64 (f64_div (f32_div x (Fin 1000)) sf)"
  by (simp add: scaled_def scale_constant)

lemma scaled_5000: "scaled (Fin 5000) (Fin 1) = Fin 5"
  unfolding scaled_eq by code_simp

lemma stof_1: "stof ''1'' = Converted (Fin 1)"
  by code_simp

lemma scaled_1: "scaled (Fin 1) (Fin 1) = Fin (8589935 / 8589934592)"
  unfolding scaled_eq by code_simp

lemma double_quotient_1: "f64_div (f64_div (Fin 1) (Fin 1000)) (Fin 1) =
    Fin (1152921504606847 / 1152921504606846976)"
  by code_simp

lemma example_fields:
  "read_buf example_sensor = []" "sensor_value example_sensor = NaN"
  "scale_factor example_sensor = Fin 1" "err_count example_sensor = 0"
  "path example_sensor = ''/sys/class/hwmon/hwmon0/in1_input''"
  "input_dev example_sensor = Some 3"
  "thresholds example_sensor = [\<lparr>level = CRITICAL, direction = HIGH, thr_value = Fin (9 / 2)\<rparr>]"
  "threshold_interface_critical example_sensor" "\<not> threshold_interface_warning example_sensor"
  by (simp_all add: example_sensor_def ADCSensor_new_def has_level_def)

lemma stof_1e39: "stof ''1e39'' = out_of_range"
  by code_simp

lemma stof_inf: "stof ''inf'' = Converted (Inf False)"
  by code_simp

lemma stof_0: "stof ''0'' = Converted (Fin 0)"
  by code_simp

lemma scaled_inf: "scaled (Inf False) (Fin 1) = Inf False"
  unfolding scaled_eq by code_simp

lemma scaled_0: "scaled (Fin 0) (Fin 1) = Fin 0"
  unfolding scaled_eq by code_simp

lemma scaled_NaN: "scaled NaN sf = NaN"
  by (simp add: scaled_eq f32_div_def f64_div_def fp_div_def)

subsection \<open>What a run publishes\<close>

lemma filter_is_bus_check_each: "filter is_bus (check_each t ts) = check_each t ts"
  by (induction ts) (simp_all add: assert_thresholds_def is_bus_def)

lemma filter_is_bus_check: "filter is_bus (check_thresholds t) = check_thresholds t"
  by (simp add: check_thresholds_def filter_is_bus_check_each)

lemma last_published_append:
  "last_published v (xs @ ys) = last_published (last_published v xs) ys"
  by (induction v xs rule: last_published.induct) simp_all

lemma last_published_check_each: "last_published v (check_each t ts) = v"
  by (induction ts) (simp_all add: assert_thresholds_def last_published_append)

lemma last_published_check: "last_published v (check_thresholds t) = v"
  by (simp add: check_thresholds_def last_published_check_each)

lemma publish_block_cong:
  "thresholds s = thresholds t \<Longrightarrow>
   threshold_interface_warning s = threshold_interface_warning t \<Longrightarrow>
   threshold_interface_critical s = threshold_interface_critical t \<Longrightarrow>
   publish_block s = publish_block t"
  by (rule ext) (simp add: publish_block_def check_thresholds_cong)

text \<open>What a call of the handler keeps, and how it changes the value.\<close>

lemma handle_response_effect:
  "thresholds (fst (snd (handle_response err fd s))) = thresholds s \<and>
   threshold_interface_warning (fst (snd (handle_response err fd s))) =
     threshold_interface_warning s \<and>
   threshold_interface_critical (fst (snd (handle_response err fd s))) =
     threshold_interface_critical s \<and>
   scale_factor (fst (snd (handle_response err fd s))) = scale_factor s \<and>
   sensor_value (fst (snd (handle_response err fd s))) =
     last_published (sensor_value s) (snd (snd (handle_response err fd s))) \<and>
   filter is_bus (snd (snd (handle_response err fd s))) =
     concat (map (publish_block s) (published (snd (snd (handle_response err fd s)))))"
proof (cases "err = bad_file_descriptor")
  case True
  then show ?thesis by (simp add: handle_response_destroyed)
next
  case nb: False
  show ?thesis
  proof (cases "err = success")
    case False
    show ?thesis
      by (simp add: handle_response_read_error [OF False nb] Let_def is_bus_def
          publish_block_def filter_is_bus_check last_published_append last_published_check)
  next
    case True
    show ?thesis
    proof (cases "stof (fst (getline (read_buf s)))")
      case (Converted x)
      show ?thesis
        unfolding True
        by (simp add: handle_response_converted [OF Converted] Let_def is_bus_def
            publish_block_def filter_is_bus_check last_published_append last_published_check)
    next
      case invalid_argument
      show ?thesis
        unfolding True
        by (simp add: handle_response_invalid_argument [OF invalid_argument] Let_def is_bus_def
            publish_block_def filter_is_bus_check last_published_append last_published_check)
    next
      case out_of_range
      show ?thesis
        unfolding True
        by (simp add: handle_response_out_of_range [OF out_of_range])
    qed
  qed
qed

lemma step_effect:
  "thresholds (fst (snd (step c s))) = thresholds s \<and>
   threshold_interface_warning (fst (snd (step c s))) = threshold_interface_warning s \<and>
   threshold_interface_critical (fst (snd (step c s))) = threshold_interface_critical s \<and>
   scale_factor (fst (snd (step c s))) = scale_factor s \<and>
   sensor_value (fst (snd (step c s))) = last_published (sensor_value s) (snd (snd (step c s))) \<and>
   filter is_bus (snd (snd (step c s))) =
     concat (map (publish_block s) (published (snd (snd (step c s)))))"
proof -
  have p: "publish_block (deliver c s) = publish_block s"
    by (rule publish_block_cong) (simp_all add: deliver_def)
  show ?thesis
    using handle_response_effect [of "read_ec c" "open_fd c" "deliver c s"]
    by (simp add: step_def p) (simp add: deliver_def)
qed

lemma run_events_Cons:
  "run_events (c # cs) s =
     snd (snd (step c s)) @
     (if fst (step c s) = Waiting \<and> wait_handler (wait_ec c) \<noteq> []
      then run_events cs (fst (snd (step c s))) else [])"
  by (cases "fst (step c s) = Waiting \<and> wait_handler (wait_ec c) \<noteq> []")
    (auto simp add: run_events_def Let_def)

lemma run_state_Cons:
  "run_state (c # cs) s =
     (if fst (step c s) = Waiting \<and> wait_handler (wait_ec c) \<noteq> []
      then run_state cs (fst (snd (step c s))) else fst (snd (step c s)))"
  by (cases "fst (step c s) = Waiting \<and> wait_handler (wait_ec c) \<noteq> []")
    (auto simp add: run_state_def Let_def)

lemma run_invariant:
  "sensor_value (run_state cs s) = last_published (sensor_value s) (run_events cs s) \<and>
   filter is_bus (run_events cs s) = concat (map (publish_block s) (published (run_events cs s)))"
proof (induction cs arbitrary: s)
  case Nil
  show ?case by (simp add: run_state_def run_events_def)
next
  case (Cons c cs)
  have p: "publish_block (fst (snd (step c s))) = publish_block s"
    by (rule publish_block_cong) (simp_all add: step_effect)
  show ?case
    using Cons.IH [of "fst (snd (step c s))"] step_effect [of c s]
    by (simp add: run_events_Cons run_state_Cons last_published_append p)
qed

lemma stof_nan: "stof ''nan'' = Converted NaN"
  by code_simp

subsection \<open>The end of a cycle and the loop\<close>

lemma cycle_ends_with_reopen:
  assumes "fst (handle_response err fd s) \<noteq> Destroyed"
    and "fst (handle_response err fd s) \<noteq> Uncaught"
  shows "\<exists>evs. snd (snd (handle_response err fd s)) =
           evs @ [CloseDev, OpenDev (path s)] @
           (if 0 < fd then [AssignDev fd, ArmTimer SENSOR_POLL_MS] else []) \<and>
         fst (handle_response err fd s) = (if 0 < fd then Waiting else Invalid) \<and>
         input_dev (fst (snd (handle_response err fd s))) = (if 0 < fd then Some fd else None)"
proof (cases "err = bad_file_descriptor")
  case True
  with assms show ?thesis by (simp add: handle_response_destroyed)
next
  case nb: False
  show ?thesis
  proof (cases "err = success")
    case False
    show ?thesis
      by (simp add: handle_response_read_error [OF False nb] Let_def)
  next
    case True
    show ?thesis
    proof (cases "stof (fst (getline (read_buf s)))")
      case (Converted x)
      show ?thesis
        unfolding True by (simp add: handle_response_converted [OF Converted] Let_def)
    next
      case invalid_argument
      show ?thesis
        unfolding True
        by (simp add: handle_response_invalid_argument [OF invalid_argument] Let_def)
    next
      case out_of_range
      with assms True show ?thesis
        by (simp add: handle_response_out_of_range [OF out_of_range])
    qed
  qed
qed

lemma poll_stops: "fst (step c s) \<noteq> Waiting \<Longrightarrow> poll (c # cs) s = [step c s]"
  by (simp add: Let_def)

lemma poll_append_streak:
  "failing_streak cs s \<Longrightarrow> poll (cs @ ds) s = poll cs s @ poll ds (state_after cs s)"
proof (induction cs arbitrary: s)
  case Nil
  show ?case by simp
next
  case (Cons c cs)
  from Cons.prems have f: "cycle_failed c s" and kp: "keeps_polling c"
    and rest: "failing_streak cs (fst (snd (step c s)))"
    by simp_all
  from kp have w: "fst (step c s) = Waiting"
    using step_failed(1) [OF f] by (simp add: keeps_polling_def)
  show ?case
    using w keeps_polling_handler [OF kp] Cons.IH [OF rest] by (simp add: Let_def)
qed

lemma failing_streak_value:
  "failing_streak cs s \<Longrightarrow>
   sensor_value (state_after cs s) =
     (if err_count s < WARN_AFTER_ERROR_COUNT \<and> WARN_AFTER_ERROR_COUNT \<le> err_count s + length cs
      then Fin 0 else sensor_value s)"
proof (induction cs arbitrary: s)
  case Nil
  show ?case by auto
next
  case (Cons c cs)
  from Cons.prems have f: "cycle_failed c s"
    and rest: "failing_streak cs (fst (snd (step c s)))"
    by simp_all
  show ?case
    using Cons.IH [OF rest] step_failed(2,4) [OF f] by auto
qed

lemma state_after_fixed:
  "thresholds (state_after cs s) = thresholds s \<and>
   threshold_interface_warning (state_after cs s) = threshold_interface_warning s \<and>
   threshold_interface_critical (state_after cs s) = threshold_interface_critical s \<and>
   scale_factor (state_after cs s) = scale_factor s"
  by (induction cs arbitrary: s) (simp_all add: step_effect)

lemma read_errors_keep_buffer:
  "read_buf (state_after (replicate n read_error_cycle) s) = read_buf s"
  by (induction n arbitrary: s)
    (simp_all add: step_def handle_response_read_error read_error_cycle_def deliver_def Let_def)

lemma fpv_kinds: "v = NaN \<or> is_inf v \<or> is_finite v"
  by (cases v) simp_all

lemma constructed_interfaces_set:
  "\<forall>t\<in>set ths. interface_set
      (ADCSensor_new (has_level WARNING) (has_level CRITICAL) pth fd0 nm ths sf) (level t)"
proof
  fix t
  assume "t \<in> set ths"
  then show "interface_set
      (ADCSensor_new (has_level WARNING) (has_level CRITICAL) pth fd0 nm ths sf) (level t)"
    by (cases "level t")
      (auto simp add: interface_set_def ADCSensor_new_def has_level_def list_ex_iff)
qed

lemma scaled_exact:
  assumes "q \<noteq> 0" and "r \<noteq> 0"
    and "round_f32 (q / 1000) = Fin (q / 1000)"
    and "round_f64 (q / 1000 / r) = Fin (q / 1000 / r)"
    and "round_f32 (q / 1000 / r) = Fin (q / 1000 / r)"
  shows "scaled (Fin q) (Fin r) = Fin (q / 1000 / r)"
  using assms by (simp add: scaled_eq f32_div_def f64_div_def fp_div_def)

lemma round_5: "round_f32 5 = Fin 5" "round_f64 5 = Fin 5"
  by code_simp+

lemma cancellation_branches:
  "handle_response bad_file_descriptor fd s = (Destroyed, s, []) \<and>
   wait_handler operation_aborted = []"
  by (simp add: handle_response_def wait_handler_def)

section \<open>The properties\<close>

text \<open>
  C9: when the channel is destroyed while its read is outstanding, the read completes
  with the error of the aborted operation, which is not the error that
  \<open>handle_response\<close> tests for. The handler takes it for a failed read: it logs it,
  counts an error, publishes 0 if this is the tenth, closes the device, opens it again
  and arms the timer. The handler of a wait that is still outstanding does nothing, and
  the handler of a wait that has expired starts a read.
\<close>

theorem destroyed_channel_handles_aborted_read:
  "snd (complete_after_destroy ReadOutstanding fd s) =
     [LogReadFailure operation_aborted] @
     (if err_count s + 1 = 10
      then SetValue (Fin 0) # check_thresholds (s\<lparr>sensor_value := Fin 0\<rparr>) else []) @
     [CloseDev, OpenDev (path s)] @
     (if fd \<le> 0 then [] else [AssignDev fd, ArmTimer 500]) \<and>
   err_count (fst (complete_after_destroy ReadOutstanding fd s)) = err_count s + 1 \<and>
   input_dev (fst (complete_after_destroy ReadOutstanding fd s)) =
     (if fd \<le> 0 then None else Some fd) \<and>
   complete_after_destroy WaitOutstanding fd s = (s\<lparr>input_dev := None\<rparr>, []) \<and>
   complete_after_destroy WaitExpired fd s = (s\<lparr>input_dev := None\<rparr>, [AsyncReadUntil])"
proof -
  have e: "operation_aborted \<noteq> success" "operation_aborted \<noteq> bad_file_descriptor"
    by simp_all
  have c: "check_thresholds (s\<lparr>input_dev := None, sensor_value := v\<rparr>) =
      check_thresholds (s\<lparr>sensor_value := v\<rparr>)" for v
    by (rule check_thresholds_cong) simp_all
  show ?thesis
    by (simp add: complete_after_destroy_def ADCSensor_destroy_def cancelled_code_def
        handle_response_read_error [OF e] Let_def c WARN_AFTER_ERROR_COUNT_def
        SENSOR_POLL_MS_def wait_handler_def setup_read_def)
qed

text \<open>
  C2: in a run of consecutive failed cycles the error count after the \<open>k\<close>-th of them
  (counted from 0) is the count before the run plus \<open>k + 1\<close>, and that cycle publishes
  exactly when this count is 10, and then the single value 0. So a run that starts from
  the count 0 publishes 0 in its tenth cycle and in no other, the ninth, the eleventh
  and all later ones included, until a successful read has set the count to 0 again.
\<close>

theorem forced_zero_once_per_streak:
  assumes "failing_streak cs s" and "k < length cs"
  shows "length (poll cs s) = length cs \<and>
         err_count (fst (snd (poll cs s ! k))) = err_count s + k + 1 \<and>
         published (snd (snd (poll cs s ! k))) =
           (if err_count s + k + 1 = 10 then [Fin 0] else [])"
  using poll_failing_streak [OF assms] by (simp add: WARN_AFTER_ERROR_COUNT_def)

theorem forced_zero_once_per_streak_witness:
  "failing_streak (replicate 12 read_error_cycle) example_sensor \<and>
   published (snd (snd (poll (replicate 12 read_error_cycle) example_sensor ! 8))) = [] \<and>
   published (snd (snd (poll (replicate 12 read_error_cycle) example_sensor ! 9))) = [Fin 0] \<and>
   published (snd (snd (poll (replicate 12 read_error_cycle) example_sensor ! 10))) = []"
proof -
  have h: "failing_streak (replicate 12 read_error_cycle) example_sensor"
    by (rule failing_streak_read_errors)
  have e: "err_count example_sensor = 0"
    by (simp add: example_sensor_def ADCSensor_new_def)
  show ?thesis
    using h e forced_zero_once_per_streak [OF h, of 8]
      forced_zero_once_per_streak [OF h, of 9] forced_zero_once_per_streak [OF h, of 10]
    by simp
qed

text \<open>
  C4: after any run of consecutive failed cycles, which has counted one error for each
  of them, a cycle that reads a line and converts it leaves the error count at 0.
\<close>

theorem success_resets_err_count:
  assumes "failing_streak cs s" and "read_ec c = success"
    and "stof (fst (getline (read_buf (deliver c (state_after cs s))))) = Converted x"
  shows "err_count (state_after cs s) = err_count s + length cs \<and>
         err_count (fst (snd (step c (state_after cs s)))) = 0"
  using assms
  by (simp add: failing_streak_err_count step_def handle_response_converted Let_def)

theorem success_resets_err_count_witness:
  "failing_streak (replicate 12 read_error_cycle) example_sensor \<and>
   err_count (state_after (replicate 12 read_error_cycle) example_sensor) = 12 \<and>
   err_count (fst (snd (step (sample_cycle ''5000'')
     (state_after (replicate 12 read_error_cycle) example_sensor)))) = 0"
proof -
  have h: "failing_streak (replicate 12 read_error_cycle) example_sensor"
    by (rule failing_streak_read_errors)
  have e: "err_count example_sensor = 0"
    by (simp add: example_sensor_def ADCSensor_new_def)
  have b: "read_buf (state_after (replicate n read_error_cycle) s) = read_buf s" for n s
    by (induction n arbitrary: s)
      (simp_all add: step_def handle_response_read_error read_error_cycle_def deliver_def Let_def)
  have r: "read_buf example_sensor = []"
    by (simp add: example_sensor_def ADCSensor_new_def)
  have p: "stof (fst (getline (read_buf (deliver (sample_cycle ''5000'')
      (state_after (replicate 12 read_error_cycle) example_sensor))))) = Converted (Fin 5000)"
    by (simp add: deliver_def b r sample_cycle_def getline_def stof_5000)
  have c: "read_ec (sample_cycle ''5000'') = success"
    by (simp add: sample_cycle_def)
  show ?thesis
    using h e success_resets_err_count [OF h c p] by simp
qed

text \<open>
  C3: when the interfaces of the levels in the set are there, an evaluation sets, for
  every threshold of the set and in their order, the alarm of its level and direction
  to the result of the comparison: value greater than trip value for the direction
  High, value less than trip value for the direction Low. The comparisons are strict:
  no value is greater or less than itself, and on finite values they are the order of
  the numbers.
\<close>

theorem thresholds_compare_strictly:
  assumes "\<forall>t\<in>set (thresholds s). interface_set s (level t)"
  shows "check_thresholds s =
           map (\<lambda>t. SetAlarm (alarm_property (level t) (direction t))
                       (if direction t = HIGH then fp_gt (sensor_value s) (thr_value t)
                        else fp_lt (sensor_value s) (thr_value t))) (thresholds s) \<and>
         \<not> fp_gt v v \<and> \<not> fp_lt v v \<and>
         fp_gt (Fin a) (Fin b) = (b < a) \<and> fp_lt (Fin a) (Fin b) = (a < b)"
  using check_each_set [OF assms]
  by (simp add: check_thresholds_def fp_gt_def fp_lt_irrefl fp_lt_Fin)

theorem thresholds_compare_strictly_witness:
  "list_all (\<lambda>t. interface_set example_sensor (level t)) (thresholds example_sensor) \<and>
   check_thresholds (example_sensor\<lparr>sensor_value := Fin 5\<rparr>) = [SetAlarm ''CriticalAlarmHigh'' True] \<and>
   check_thresholds (example_sensor\<lparr>sensor_value := Fin (9 / 2)\<rparr>) = [SetAlarm ''CriticalAlarmHigh'' False] \<and>
   check_thresholds (example_sensor\<lparr>sensor_value := Fin 4\<rparr>) = [SetAlarm ''CriticalAlarmHigh'' False]"
proof -
  have h: "\<forall>t\<in>set (thresholds (example_sensor\<lparr>sensor_value := v\<rparr>)).
      interface_set (example_sensor\<lparr>sensor_value := v\<rparr>) (level t)" for v
    by (simp add: example_sensor_def ADCSensor_new_def interface_set_def has_level_def)
  have t: "thresholds example_sensor =
      [\<lparr>level = CRITICAL, direction = HIGH, thr_value = Fin (9 / 2)\<rparr>]"
    by (simp add: example_sensor_def ADCSensor_new_def)
  show ?thesis
    using h [of "sensor_value example_sensor"]
      thresholds_compare_strictly [OF h [of "Fin 5"], of NaN 0 0]
      thresholds_compare_strictly [OF h [of "Fin (9 / 2)"], of NaN 0 0]
      thresholds_compare_strictly [OF h [of "Fin 4"], of NaN 0 0]
    by (simp add: t alarm_property_def fp_gt_def fp_lt_def list_all_iff)
qed

text \<open>
  C6: a cycle that reads a line and converts it publishes the scaled value and evaluates
  the thresholds against it exactly when the scaled value is unequal to the stored
  value, in the floating-point sense; when it is equal, the cycle sets nothing on the
  bus and the stored value stays.
\<close>

theorem unchanged_value_not_published:
  assumes "stof (fst (getline (read_buf s))) = Converted x"
  shows "snd (snd (handle_response success fd s)) =
           (if fp_ne (scaled x (scale_factor s)) (sensor_value s)
            then SetValue (scaled x (scale_factor s)) #
                 check_thresholds (s\<lparr>sensor_value := scaled x (scale_factor s)\<rparr>)
            else []) @
           [CloseDev, OpenDev (path s)] @
           (if fd \<le> 0 then [] else [AssignDev fd, ArmTimer SENSOR_POLL_MS]) \<and>
         sensor_value (fst (snd (handle_response success fd s))) =
           (if fp_ne (scaled x (scale_factor s)) (sensor_value s)
            then scaled x (scale_factor s) else sensor_value s) \<and>
         fp_ne (Fin a) (Fin b) = (a \<noteq> b)"
  by (simp add: handle_response_converted [OF assms] Let_def fp_ne_Fin)

theorem unchanged_value_not_published_witness:
  "stof (fst (getline (read_buf
      (example_sensor\<lparr>read_buf := ''5000\<newline>'', sensor_value := Fin 5\<rparr>)))) =
     Converted (Fin 5000) \<and>
   snd (snd (handle_response success 3
      (example_sensor\<lparr>read_buf := ''5000\<newline>'', sensor_value := Fin 5\<rparr>))) =
     [CloseDev, OpenDev ''/sys/class/hwmon/hwmon0/in1_input'', AssignDev 3, ArmTimer 500] \<and>
   snd (snd (handle_response success 3
      (example_sensor\<lparr>read_buf := ''5000\<newline>'', sensor_value := Fin 4\<rparr>))) =
     [SetValue (Fin 5), SetAlarm ''CriticalAlarmHigh'' True,
      CloseDev, OpenDev ''/sys/class/hwmon/hwmon0/in1_input'', AssignDev 3, ArmTimer 500]"
proof -
  have h: "stof (fst (getline (read_buf
      (example_sensor\<lparr>read_buf := ''5000\<newline>'', sensor_value := v\<rparr>)))) =
     Converted (Fin 5000)" for v
    by (simp add: getline_def stof_5000)
  have c: "check_thresholds (example_sensor\<lparr>read_buf := b, sensor_value := Fin 4, sensor_value := Fin 5\<rparr>) =
      [SetAlarm ''CriticalAlarmHigh'' True]" for b
    by (simp add: check_thresholds_def example_sensor_def ADCSensor_new_def
        assert_thresholds_def has_level_def fp_gt_def fp_lt_def)
  show ?thesis
    using h [of "Fin 5"] unchanged_value_not_published [OF h [of "Fin 5"], of 3 0 0]
      unchanged_value_not_published [OF h [of "Fin 4"], of 3 0 0]
    by (simp add: scaled_5000 c fp_ne_Fin SENSOR_POLL_MS_def example_sensor_def ADCSensor_new_def
        check_thresholds_def assert_thresholds_def has_level_def fp_gt_def fp_lt_def)
qed

text \<open>
  C1, as stated, fails: with the scale factor 1 the line \<open>1\<close> publishes the \<open>float\<close>
  nearest to 0.001, which is neither the quotient 1 / 1000 / 1 nor the quotient computed
  in \<open>double\<close>.
\<close>

theorem published_value_is_rounded_counterexample:
  "stof (fst (getline (''1\<newline>''))) = Converted (Fin 1) \<and>
   published (snd (snd (handle_response success 3
       (example_sensor\<lparr>read_buf := ''1\<newline>''\<rparr>)))) = [Fin (8589935 / 8589934592)] \<and>
   Fin (8589935 / 8589934592) \<noteq> Fin (1 / 1000 / 1) \<and>
   Fin (8589935 / 8589934592) \<noteq> f64_div (f64_div (Fin 1) (Fin 1000)) (Fin 1)"
proof -
  have h: "stof (fst (getline (read_buf (example_sensor\<lparr>read_buf := ''1\<newline>''\<rparr>)))) =
      Converted (Fin 1)"
    by (simp add: getline_def stof_1)
  show ?thesis
    using h
    by (simp add: handle_response_converted [OF h] Let_def example_fields scaled_1
        fp_ne_NaN double_quotient_1 getline_def)
qed

text \<open>
  C1, amended: for a line that converts to the \<open>float\<close> \<open>x\<close>, the value handed to the
  publisher and to the evaluation of the thresholds (when it differs from the stored
  value) is \<open>x\<close> divided by 1000 in \<open>float\<close>, divided by the scale factor in \<open>double\<close>
  and rounded to \<open>float\<close>. When the three roundings are exact, it is the exact
  quotient; so with the scale factor 1 the line \<open>5000\<close> publishes 5.
\<close>

theorem published_value_single_precision:
  assumes "stof (fst (getline (read_buf s))) = Converted x"
    and "fp_ne (scaled x (scale_factor s)) (sensor_value s)"
  shows "scaled x (scale_factor s) =
           f32_of_f64 (f64_div (f32_div x (Fin 1000)) (scale_factor s)) \<and>
         published (snd (snd (handle_response success fd s))) = [scaled x (scale_factor s)] \<and>
         sensor_value (fst (snd (handle_response success fd s))) = scaled x (scale_factor s) \<and>
         filter is_bus (snd (snd (handle_response success fd s))) =
           SetValue (scaled x (scale_factor s)) #
           check_thresholds (s\<lparr>sensor_value := scaled x (scale_factor s)\<rparr>) \<and>
         (x = Fin q \<and> scale_factor s = Fin r \<and> q \<noteq> 0 \<and> r \<noteq> 0 \<and>
          round_f32 (q / 1000) = Fin (q / 1000) \<and>
          round_f64 (q / 1000 / r) = Fin (q / 1000 / r) \<and>
          round_f32 (q / 1000 / r) = Fin (q / 1000 / r) \<longrightarrow>
          scaled x (scale_factor s) = Fin (q / 1000 / r))"
proof -
  have e: "scaled x (scale_factor s) = Fin (q / 1000 / r)"
    if "x = Fin q" "scale_factor s = Fin r" "q \<noteq> 0" "r \<noteq> 0"
      "round_f32 (q / 1000) = Fin (q / 1000)"
      "round_f64 (q / 1000 / r) = Fin (q / 1000 / r)"
      "round_f32 (q / 1000 / r) = Fin (q / 1000 / r)"
    using that scaled_exact [of q r] by simp
  show ?thesis
    using assms(2) e
    by (simp add: handle_response_converted [OF assms(1)] Let_def scaled_eq [symmetric]
        filter_is_bus_check is_bus_def)
qed

theorem published_value_single_precision_witness:
  "stof (fst (getline (read_buf (example_sensor\<lparr>read_buf := ''5000\<newline>''\<rparr>)))) =
     Converted (Fin 5000) \<and>
   fp_ne (scaled (Fin 5000) (Fin 1)) NaN \<and>
   round_f32 (5000 / 1000) = Fin (5000 / 1000) \<and>
   round_f64 (5000 / 1000 / 1) = Fin (5000 / 1000 / 1) \<and>
   scaled (Fin 5000) (Fin 1) = Fin (5000 / 1000 / 1) \<and>
   published (snd (snd (handle_response success 3
      (example_sensor\<lparr>read_buf := ''5000\<newline>''\<rparr>)))) = [Fin 5] \<and>
   filter is_bus (snd (snd (handle_response success 3
      (example_sensor\<lparr>read_buf := ''5000\<newline>''\<rparr>)))) =
     [SetValue (Fin 5), SetAlarm ''CriticalAlarmHigh'' True]"
proof -
  have h: "stof (fst (getline (read_buf (example_sensor\<lparr>read_buf := ''5000\<newline>''\<rparr>)))) =
      Converted (Fin 5000)"
    by (simp add: getline_def stof_5000)
  have n: "fp_ne (scaled (Fin 5000) (scale_factor (example_sensor\<lparr>read_buf := ''5000\<newline>''\<rparr>)))
      (sensor_value (example_sensor\<lparr>read_buf := ''5000\<newline>''\<rparr>))"
    by (simp add: example_fields fp_ne_NaN)
  have c: "check_thresholds (example_sensor\<lparr>read_buf := b, sensor_value := Fin 5\<rparr>) =
      [SetAlarm ''CriticalAlarmHigh'' True]" for b
    by (simp add: check_thresholds_def example_fields assert_thresholds_def fp_gt_def fp_lt_def)
  show ?thesis
    using h published_value_single_precision [OF h n, of 3 5000 1, THEN conjunct2]
    by (simp add: example_fields fp_ne_NaN c round_5)
qed

text \<open>
  C7, as stated, fails: with the scale factor 1 the line \<open>inf\<close> is converted and leaves
  the positive infinity as the current value, which is neither a finite number nor
  not-a-number.
\<close>

theorem value_not_finite_counterexample:
  "stof (fst (getline ''inf\<newline>'')) = Converted (Inf False) \<and>
   sensor_value (fst (snd (handle_response success 3
      (example_sensor\<lparr>read_buf := ''inf\<newline>''\<rparr>)))) = Inf False \<and>
   \<not> is_finite (Inf False) \<and> Inf False \<noteq> NaN"
proof -
  have h: "stof (fst (getline (read_buf (example_sensor\<lparr>read_buf := ''inf\<newline>''\<rparr>)))) =
      Converted (Inf False)"
    by (simp add: getline_def stof_inf)
  show ?thesis
    using h
    by (simp add: handle_response_converted [OF h] Let_def example_fields scaled_inf fp_ne_NaN)
qed

text \<open>
  C7, amended: after every run of the loop from the construction of the sensor, the
  current value is the value that was published last, and not-a-number when nothing was
  published yet; it is not-a-number, an infinity or a finite number. All that a run
  does on the bus is a sequence of publications, each one the value followed at once by
  the evaluation of the thresholds against exactly that value.
\<close>

theorem value_is_last_published:
  "sensor_value (run_state cs (ADCSensor_new hw hc pth fd0 nm ths sf)) =
     last_published NaN (run_events cs (ADCSensor_new hw hc pth fd0 nm ths sf)) \<and>
   (sensor_value (run_state cs (ADCSensor_new hw hc pth fd0 nm ths sf)) = NaN \<or>
    is_inf (sensor_value (run_state cs (ADCSensor_new hw hc pth fd0 nm ths sf))) \<or>
    is_finite (sensor_value (run_state cs (ADCSensor_new hw hc pth fd0 nm ths sf)))) \<and>
   filter is_bus (run_events cs (ADCSensor_new hw hc pth fd0 nm ths sf)) =
     concat (map (publish_block (ADCSensor_new hw hc pth fd0 nm ths sf))
       (published (run_events cs (ADCSensor_new hw hc pth fd0 nm ths sf))))"
  using run_invariant [of cs "ADCSensor_new hw hc pth fd0 nm ths sf"]
    fpv_kinds [of "sensor_value (run_state cs (ADCSensor_new hw hc pth fd0 nm ths sf))"]
  by (simp add: ADCSensor_new_def)

text \<open>
  C5: the line \<open>1e39\<close> is a number that \<open>float\<close> cannot hold. \<open>std::stof\<close> throws
  \<open>std::out_of_range\<close> for it, the handler catches \<open>std::invalid_argument\<close> only, and
  the exception leaves the handler: the error count is not incremented and nothing
  else is done.
\<close>

theorem out_of_range_leaves_handler:
  "stof (fst (getline ''1e39\<newline>'')) = out_of_range \<and>
   handle_response success 3 (example_sensor\<lparr>read_buf := ''1e39\<newline>''\<rparr>) =
     (Uncaught, example_sensor\<lparr>read_buf := []\<rparr>, [])"
proof -
  have h: "stof (fst (getline (read_buf (example_sensor\<lparr>read_buf := ''1e39\<newline>''\<rparr>)))) =
      out_of_range"
    by (simp add: getline_def stof_1e39)
  show ?thesis
    using h by (simp add: handle_response_out_of_range [OF h]) (simp add: getline_def)
qed

text \<open>
  C8: the cycle that reads the line \<open>1e39\<close> ends in the exception, before the device is
  closed and opened again and before the timer is armed: the descriptor stays as it
  was and the loop runs no further cycle. And when \<open>open\<close> returns the descriptor 0,
  the handler takes the device as not opened and arms no timer.
\<close>

theorem out_of_range_skips_reopen:
  "poll [sample_cycle ''1e39'', sample_cycle ''5000''] example_sensor =
     [(Uncaught, example_sensor\<lparr>read_buf := []\<rparr>, [])] \<and>
   input_dev (example_sensor\<lparr>read_buf := []\<rparr>) = Some 3 \<and>
   handle_response (other_error 5) 0 example_sensor =
     (Invalid, example_sensor\<lparr>err_count := 1, input_dev := None\<rparr>,
      [LogReadFailure (other_error 5), CloseDev, OpenDev ''/sys/class/hwmon/hwmon0/in1_input''])"
proof -
  have h: "stof (fst (getline (read_buf (example_sensor\<lparr>read_buf := ''1e39\<newline>''\<rparr>)))) =
      out_of_range"
    by (simp add: getline_def stof_1e39)
  have s: "step (sample_cycle ''1e39'') example_sensor =
      (Uncaught, example_sensor\<lparr>read_buf := []\<rparr>, [])"
    using h
    by (simp add: step_def deliver_def sample_cycle_def example_fields
        handle_response_out_of_range [OF h]) (simp add: getline_def)
  have e: "other_error 5 \<noteq> success" "other_error 5 \<noteq> bad_file_descriptor"
    by simp_all
  show ?thesis
    by (simp add: s Let_def handle_response_read_error [OF e] example_fields
        WARN_AFTER_ERROR_COUNT_def)
qed

text \<open>
  C10, as stated, fails: after ten failed cycles the forced publication has stored the
  value 0, and the first line that is converted, \<open>0\<close>, is equal to it and is not
  published.
\<close>

theorem first_sample_suppressed_counterexample:
  "failing_streak (replicate 10 read_error_cycle) example_sensor \<and>
   length (poll (replicate 10 read_error_cycle @ [sample_cycle ''0'']) example_sensor) = 11 \<and>
   stof ''0'' = Converted (Fin 0) \<and>
   fst (last (poll (replicate 10 read_error_cycle @ [sample_cycle ''0'']) example_sensor)) = Waiting \<and>
   err_count (fst (snd (last
     (poll (replicate 10 read_error_cycle @ [sample_cycle ''0'']) example_sensor)))) = 0 \<and>
   published (snd (snd (last
     (poll (replicate 10 read_error_cycle @ [sample_cycle ''0'']) example_sensor)))) = []"
proof -
  let ?s = "state_after (replicate 10 read_error_cycle) example_sensor"
  have st: "failing_streak (replicate 10 read_error_cycle) example_sensor"
    by (rule failing_streak_read_errors)
  have len: "length (poll (replicate 10 read_error_cycle) example_sensor) = 10"
    using poll_failing_streak [OF st, of 0] by simp
  have v: "sensor_value ?s = Fin 0"
    using failing_streak_value [OF st]
    by (simp add: example_fields WARN_AFTER_ERROR_COUNT_def)
  have b: "read_buf ?s = []"
    by (simp add: read_errors_keep_buffer example_fields)
  have sf: "scale_factor ?s = Fin 1"
    by (simp add: state_after_fixed example_fields)
  have h: "stof (fst (getline (read_buf (deliver (sample_cycle ''0'') ?s)))) = Converted (Fin 0)"
    by (simp add: deliver_def b sample_cycle_def getline_def stof_0)
  have sfd: "scale_factor (deliver (sample_cycle ''0'') ?s) = Fin 1"
    "sensor_value (deliver (sample_cycle ''0'') ?s) = Fin 0"
    by (simp_all add: deliver_def sf v)
  have r: "read_ec (sample_cycle ''0'') = success" "open_fd (sample_cycle ''0'') = 3"
    by (simp_all add: sample_cycle_def)
  have s: "fst (step (sample_cycle ''0'') ?s) = Waiting \<and>
      err_count (fst (snd (step (sample_cycle ''0'') ?s))) = 0 \<and>
      published (snd (snd (step (sample_cycle ''0'') ?s))) = []"
    unfolding step_def r
    by (simp add: handle_response_converted [OF h] Let_def sfd scaled_0 fp_ne_Fin)
  have p: "poll (replicate 10 read_error_cycle @ [sample_cycle ''0'']) example_sensor =
      poll (replicate 10 read_error_cycle) example_sensor @ [step (sample_cycle ''0'') ?s]"
    by (simp add: poll_append_streak [OF st] Let_def)
  show ?thesis
    using st s by (simp add: p len stof_0)
qed

text \<open>
  C10, amended: when fewer than ten failed cycles have gone before it, so that the
  stored value is still the not-a-number of the constructor, the first line that is
  converted is published and the thresholds are evaluated against it, whatever its
  value; and in any state a line that is converted to not-a-number is published and
  evaluated, also when not-a-number is the stored value.
\<close>

theorem unset_or_nan_is_published:
  assumes "failing_streak cs (ADCSensor_new hw hc pth fd0 nm ths sf)"
    and "length cs < 10"
    and "read_ec c = success"
    and "stof (fst (getline (read_buf
           (deliver c (state_after cs (ADCSensor_new hw hc pth fd0 nm ths sf)))))) = Converted x"
  shows "filter is_bus (snd (snd (step c (state_after cs (ADCSensor_new hw hc pth fd0 nm ths sf))))) =
           publish_block (ADCSensor_new hw hc pth fd0 nm ths sf) (scaled x sf) \<and>
         (stof (fst (getline (read_buf s))) = Converted NaN \<longrightarrow>
          filter is_bus (snd (snd (handle_response success fd s))) = publish_block s NaN)"
proof -
  let ?n = "ADCSensor_new hw hc pth fd0 nm ths sf"
  let ?s = "deliver c (state_after cs ?n)"
  have v: "sensor_value ?s = NaN"
    using failing_streak_value [OF assms(1)] assms(2)
    by (simp add: deliver_def ADCSensor_new_def WARN_AFTER_ERROR_COUNT_def)
  have sf: "scale_factor ?s = sf"
    by (simp add: deliver_def state_after_fixed) (simp add: ADCSensor_new_def)
  have pb: "publish_block ?s = publish_block ?n"
    by (rule publish_block_cong) (simp_all add: deliver_def state_after_fixed)
  have 1: "filter is_bus (snd (snd (step c (state_after cs ?n)))) = publish_block ?n (scaled x sf)"
    unfolding step_def assms(3)
    by (simp add: handle_response_converted [OF assms(4)] Let_def v sf fp_ne_NaN is_bus_def
        filter_is_bus_check pb [symmetric] publish_block_def)
  have 2: "filter is_bus (snd (snd (handle_response success fd s))) = publish_block s NaN"
    if h: "stof (fst (getline (read_buf s))) = Converted NaN"
    by (simp add: handle_response_converted [OF h] Let_def scaled_NaN fp_ne_NaN is_bus_def
        filter_is_bus_check publish_block_def)
  show ?thesis
    using 1 2 by simp
qed

theorem unset_or_nan_is_published_witness:
  "failing_streak (replicate 3 read_error_cycle) example_sensor \<and>
   stof (fst (getline (read_buf (deliver (sample_cycle ''0'')
     (state_after (replicate 3 read_error_cycle) example_sensor))))) = Converted (Fin 0) \<and>
   filter is_bus (snd (snd (step (sample_cycle ''0'')
     (state_after (replicate 3 read_error_cycle) example_sensor)))) =
     [SetValue (Fin 0), SetAlarm ''CriticalAlarmHigh'' False] \<and>
   stof (fst (getline (read_buf (example_sensor\<lparr>read_buf := ''nan\<newline>''\<rparr>)))) = Converted NaN \<and>
   filter is_bus (snd (snd (handle_response success 3
     (example_sensor\<lparr>read_buf := ''nan\<newline>''\<rparr>)))) =
     [SetValue NaN, SetAlarm ''CriticalAlarmHigh'' False]"
proof -
  have st: "failing_streak (replicate 3 read_error_cycle)
      (ADCSensor_new (has_level WARNING) (has_level CRITICAL) ''/sys/class/hwmon/hwmon0/in1_input'' 3
        ''P12V AUX'' [\<lparr>level = CRITICAL, direction = HIGH, thr_value = Fin (9 / 2)\<rparr>] (Fin 1))"
    by (rule failing_streak_read_errors)
  have l: "length (replicate 3 read_error_cycle) < 10"
    by simp
  have c: "read_ec (sample_cycle ''0'') = success"
    by (simp add: sample_cycle_def)
  have h: "stof (fst (getline (read_buf (deliver (sample_cycle ''0'')
      (state_after (replicate 3 read_error_cycle)
        (ADCSensor_new (has_level WARNING) (has_level CRITICAL)
          ''/sys/class/hwmon/hwmon0/in1_input'' 3 ''P12V AUX''
          [\<lparr>level = CRITICAL, direction = HIGH, thr_value = Fin (9 / 2)\<rparr>] (Fin 1))))))) =
      Converted (Fin 0)"
    by (simp add: deliver_def read_errors_keep_buffer sample_cycle_def getline_def stof_0)
      (simp add: ADCSensor_new_def getline_def stof_0)
  have n: "stof (fst (getline (read_buf (example_sensor\<lparr>read_buf := ''nan\<newline>''\<rparr>)))) =
      Converted NaN"
    by (simp add: getline_def stof_nan)
  have k: "check_thresholds (example_sensor\<lparr>sensor_value := v\<rparr>) =
      [SetAlarm ''CriticalAlarmHigh'' (fp_gt v (Fin (9 / 2)))]" for v
    by (simp add: check_thresholds_def example_fields assert_thresholds_def)
  have k2: "check_thresholds (example_sensor\<lparr>read_buf := b, sensor_value := v\<rparr>) =
      [SetAlarm ''CriticalAlarmHigh'' (fp_gt v (Fin (9 / 2)))]" for v b
    by (simp add: check_thresholds_def example_fields assert_thresholds_def)
  show ?thesis
    using st h n
      unset_or_nan_is_published [OF st l c h, of "example_sensor\<lparr>read_buf := ''nan\<newline>''\<rparr>" 3]
    by (simp add: example_sensor_def [symmetric] publish_block_def k k2 scaled_0
        fp_gt_def fp_lt_def)
qed

end
